theory Spec2Isabelle
  imports Main "HOL-Library.Word"
begin

section \<open>Values, contexts and errors\<close>

text \<open>
  Go's \<open>any\<close>, as far as the repository and the response helpers look at it: identifiers,
  positional arguments of a condition, and the values kept in a request context.
\<close>

datatype any = AInt int | AStr string | ABool bool

text \<open>A \<open>context.Context\<close> is read through \<open>ctx.Value(key)\<close> only.\<close>

type_synonym go_context = "string \<rightharpoonup> any"

text \<open>Go's \<open>int\<close> on a 64-bit platform; \<open>*\<close> and \<open>-\<close> wrap around.\<close>

type_synonym go_int = "64 word"

text \<open>The error definitions of package errspec that the sources name.\<close>

datatype errspec = ErrUnknown | ErrNotFound | ErrRecordNotExist | ErrQueryParamEmpty

text \<open>
  Error values: the sentinel \<open>gorm.ErrRecordNotFound\<close>, any other error of the store, and
  a domain error built from an errspec definition.
\<close>

datatype error =
    gorm_ErrRecordNotFound
  | gorm_Error string
  | DomainError errspec go_context "error option"

text \<open>
  Modelled from the spec: packages errspec and errorx are not among the sources. A domain
  error carries the stable code of its definition and an optional wrapped cause;
  \<open>New(ctx)\<close> builds one without a cause, \<open>Wrap(err)\<close> attaches the cause, \<open>Unwrap\<close>
  returns it. The numeric codes themselves are a parameter (\<open>codes\<close>).
\<close>

definition New :: "errspec \<Rightarrow> go_context \<Rightarrow> error" where
  "New d ctx = DomainError d ctx None"

fun Wrap :: "error \<Rightarrow> error \<Rightarrow> error" where
  "Wrap (DomainError d ctx _) cause = DomainError d ctx (Some cause)"
| "Wrap e cause = e"

fun Unwrap :: "error \<Rightarrow> error option" where
  "Unwrap (DomainError d ctx cause) = cause"
| "Unwrap e = None"

fun Code :: "(errspec \<Rightarrow> int) \<Rightarrow> error \<Rightarrow> int option" where
  "Code codes (DomainError d ctx cause) = Some (codes d)"
| "Code codes e = None"

section \<open>The store handle\<close>

text \<open>
  A \<open>*gorm.DB\<close> is a handle bound to a connection or to a transaction, with the context
  and the statement built so far. The chain methods the repository calls only extend the
  statement; it is kept as the sequence of those calls, in call order, and it is the
  store that interprets it when a finisher (First, Find, Count) runs.
\<close>

datatype handle = Conn nat | Tx nat

datatype clause =
    CModel
  | CPreload string
  | CWhere string "any list"
  | COffset go_int
  | CLimit go_int

record gorm_DB =
  handle :: handle
  Context :: go_context
  Statement :: "clause list"

definition WithContext :: "go_context \<Rightarrow> gorm_DB \<Rightarrow> gorm_DB" where
  "WithContext ctx db = db\<lparr>Context := ctx\<rparr>"

definition chain :: "clause \<Rightarrow> gorm_DB \<Rightarrow> gorm_DB" where
  "chain c db = db\<lparr>Statement := Statement db @ [c]\<rparr>"

definition Model :: "gorm_DB \<Rightarrow> gorm_DB" where
  "Model db = chain CModel db"

definition Preload :: "string \<Rightarrow> gorm_DB \<Rightarrow> gorm_DB" where
  "Preload name db = chain (CPreload name) db"

definition Where :: "string \<Rightarrow> any list \<Rightarrow> gorm_DB \<Rightarrow> gorm_DB" where
  "Where cond args db = chain (CWhere cond args) db"

definition Offset :: "go_int \<Rightarrow> gorm_DB \<Rightarrow> gorm_DB" where
  "Offset n db = chain (COffset n) db"

definition Limit :: "go_int \<Rightarrow> gorm_DB \<Rightarrow> gorm_DB" where
  "Limit n db = chain (CLimit n) db"

section \<open>Query options\<close>

text \<open>
  Modelled from the spec: package options is not among the sources. An \<open>options.Option\<close>
  is a generic modifier of a query, and \<open>options.Apply(query, opts...)\<close> applies the
  modifiers to the query one after the other, in the order of the sequence.
\<close>

type_synonym options_Option = "gorm_DB \<Rightarrow> gorm_DB"

fun options_Apply :: "gorm_DB \<Rightarrow> options_Option list \<Rightarrow> gorm_DB" where
  "options_Apply db [] = db"
| "options_Apply db (opt # opts) = options_Apply (opt db) opts"

record QueryOptions =
  Condition :: string
  Args :: "any list"
  Opts :: "options_Option list"
  Preloads :: "string list"

text \<open>The loop \<open>for _, preload := range opts.Preloads { query = query.Preload(preload) }\<close>.\<close>

fun apply_preloads :: "gorm_DB \<Rightarrow> string list \<Rightarrow> gorm_DB" where
  "apply_preloads query [] = query"
| "apply_preloads query (preload # rest) = apply_preloads (Preload preload query) rest"

text \<open>
  \<open>applyQueryOptions\<close>; \<open>None\<close> is the nil pointer. A nil slice and an empty one are both
  the empty list: the guard \<open>opts.Preloads != nil\<close> only skips a loop that would not run.
\<close>

definition applyQueryOptions :: "gorm_DB \<Rightarrow> QueryOptions option \<Rightarrow> gorm_DB" where
  "applyQueryOptions query opts =
     (case opts of
        None \<Rightarrow> query
      | Some opt \<Rightarrow>
          (let query1 = (if Preloads opt \<noteq> [] then apply_preloads query (Preloads opt) else query);
               query2 = (if length (Opts opt) > 0 then options_Apply query1 (Opts opt) else query1);
               query3 = (if Condition opt \<noteq> '''' then Where (Condition opt) (Args opt) query2
                         else query2)
           in query3))"

section \<open>The store\<close>

text \<open>
  The finishers run the statement against the database. What they answer is the store's
  business, so they are parameters of the repository operations: \<open>exec_First q id\<close> is
  \<open>q.First(&entity, id)\<close> (or \<open>q.First(&entity)\<close> when \<open>id\<close> is \<open>None\<close>) with its \<open>Error\<close>,
  \<open>exec_Find\<close> is \<open>q.Find(&entities)\<close> and \<open>exec_Count\<close> is \<open>q.Count(&count)\<close>.
\<close>

record 'e store =
  exec_First :: "gorm_DB \<Rightarrow> any option \<Rightarrow> error + 'e"
  exec_Find :: "gorm_DB \<Rightarrow> error + 'e list"
  exec_Count :: "gorm_DB \<Rightarrow> error + int"

text \<open>Every finisher call is recorded, so that "no query was issued" can be stated.\<close>

datatype query_call =
    FirstCall gorm_DB "any option"
  | FindCall gorm_DB
  | CountCall gorm_DB

section \<open>The generic repository\<close>

record GenericRepo =
  DB :: gorm_DB
  ErrorCode :: int

definition NewGenericRepo :: "(errspec \<Rightarrow> int) \<Rightarrow> gorm_DB \<Rightarrow> GenericRepo" where
  "NewGenericRepo codes db = \<lparr>DB = db, ErrorCode = codes ErrNotFound\<rparr>"

text \<open>The tail of \<open>Get\<close>: what becomes of the error of \<open>First\<close>.\<close>

definition Get_result :: "go_context \<Rightarrow> error + 'e \<Rightarrow> error + 'e" where
  "Get_result ctx res =
     (case res of
        Inl err \<Rightarrow>
          if err = gorm_ErrRecordNotFound then Inl (Wrap (New ErrRecordNotExist ctx) err)
          else Inl err
      | Inr entity \<Rightarrow> Inr entity)"

definition has_condition :: "QueryOptions option \<Rightarrow> bool" where
  "has_condition opts = (case opts of None \<Rightarrow> False | Some opt \<Rightarrow> Condition opt \<noteq> '''')"

definition GenericRepo_Get ::
  "'e store \<Rightarrow> GenericRepo \<Rightarrow> go_context \<Rightarrow> any option \<Rightarrow> QueryOptions option
     \<Rightarrow> (error + 'e) \<times> query_call list" where
  "GenericRepo_Get st r ctx ident opts =
     (let query = applyQueryOptions (WithContext ctx (DB r)) opts in
      if ident \<noteq> None
        then (Get_result ctx (exec_First st query ident), [FirstCall query ident])
      else if has_condition opts
        then (Get_result ctx (exec_First st query None), [FirstCall query None])
      else (Inl (New ErrQueryParamEmpty ctx), []))"

definition GenericRepo_List ::
  "'e store \<Rightarrow> GenericRepo \<Rightarrow> go_context \<Rightarrow> go_int \<Rightarrow> go_int \<Rightarrow> QueryOptions option
     \<Rightarrow> (error + 'e list) \<times> query_call list" where
  "GenericRepo_List st r ctx page pageSize opts =
     (let query = WithContext ctx (DB r);
          offset = (page - 1) * pageSize;
          query = Limit pageSize (Offset offset query);
          query = applyQueryOptions query opts
      in (case exec_Find st query of
            Inl err \<Rightarrow> Inl err
          | Inr entities \<Rightarrow> Inr entities,
          [FindCall query]))"

definition GenericRepo_Count ::
  "'e store \<Rightarrow> GenericRepo \<Rightarrow> go_context \<Rightarrow> QueryOptions option
     \<Rightarrow> (error + int) \<times> query_call list" where
  "GenericRepo_Count st r ctx opts =
     (let query = Model (WithContext ctx (DB r));
          query = applyQueryOptions query opts
      in (case exec_Count st query of
            Inl err \<Rightarrow> Inl err
          | Inr count \<Rightarrow> Inr count,
          [CountCall query]))"

text \<open>
  Repositories are heap objects reached through pointers: the heap is the list of the
  objects allocated so far and a pointer is an index into it. Dereferencing a pointer that
  is not allocated (nil) panics: \<open>None\<close>.
\<close>

type_synonym repo_heap = "GenericRepo list"

definition GenericRepo_WithTx :: "repo_heap \<Rightarrow> nat \<Rightarrow> gorm_DB \<Rightarrow> (nat \<times> repo_heap) option" where
  "GenericRepo_WithTx h r tx =
     (if r < length h
      then Some (length h, h @ [\<lparr>DB = tx, ErrorCode = ErrorCode (h ! r)\<rparr>])
      else None)"

section \<open>Transactions\<close>

text \<open>
  \<open>(*gorm.DB).Transaction\<close> belongs to the store library, not to the repository. It is
  modelled by the library's documented contract: begin a transaction, run the callback
  on the transactional handle, roll back when the callback returns an error and return
  that error, otherwise commit and return the error of the commit. The database is a
  state \<open>'d\<close> that the callback reads and writes through the handle it is given; the
  writes become the visible state on commit only. Whether the commit itself succeeds is
  the store's business (\<open>commit\<close>). A store that cannot begin a transaction at all is
  outside this model.
\<close>

datatype tx_event = EvBegin | EvCommit | EvRollback

definition Begin :: "gorm_DB \<Rightarrow> gorm_DB" where
  "Begin db = db\<lparr>handle := (case handle db of Conn n \<Rightarrow> Tx n | Tx n \<Rightarrow> Tx n)\<rparr>"

fun is_Tx :: "handle \<Rightarrow> bool" where
  "is_Tx (Tx n) = True"
| "is_Tx (Conn n) = False"

definition gorm_Transaction ::
  "('d \<Rightarrow> error option) \<Rightarrow> gorm_DB \<Rightarrow> (gorm_DB \<Rightarrow> 'd \<Rightarrow> error option \<times> 'd) \<Rightarrow> 'd
     \<Rightarrow> error option \<times> 'd \<times> tx_event list" where
  "gorm_Transaction commit db fc d =
     (let tx = Begin db in
      case fc tx d of
        (Some err, d') \<Rightarrow> (Some err, d, [EvBegin, EvRollback])
      | (None, d') \<Rightarrow>
          (case commit d' of
             None \<Rightarrow> (None, d', [EvBegin, EvCommit])
           | Some cerr \<Rightarrow> (Some cerr, d, [EvBegin, EvCommit])))"

definition GenericRepo_Transaction ::
  "('d \<Rightarrow> error option) \<Rightarrow> GenericRepo \<Rightarrow> go_context
     \<Rightarrow> (gorm_DB \<Rightarrow> 'd \<Rightarrow> error option \<times> 'd) \<Rightarrow> 'd \<Rightarrow> error option \<times> 'd \<times> tx_event list" where
  "GenericRepo_Transaction commit r ctx fn d = gorm_Transaction commit (WithContext ctx (DB r)) fn d"

section \<open>The response helpers\<close>

text \<open>
  What the helpers read of a \<open>*gin.Context\<close>: the request headers, gin's per-request key
  store (\<open>c.Get\<close>, \<open>c.Set\<close>) and the values of the request's context.
\<close>

record gin_Context =
  Header :: "string \<rightharpoonup> string"
  Keys :: "string \<rightharpoonup> any"
  Request_Context :: go_context

definition GetHeader :: "gin_Context \<Rightarrow> string \<Rightarrow> string" where
  "GetHeader c key = (case Header c key of None \<Rightarrow> '''' | Some v \<Rightarrow> v)"

definition Set :: "string \<Rightarrow> any \<Rightarrow> gin_Context \<Rightarrow> gin_Context" where
  "Set key v c = c\<lparr>Keys := (Keys c)(key \<mapsto> v)\<rparr>"

text \<open>The type assertion \<open>v.(string)\<close> followed by the test \<open>!= ""\<close>.\<close>

fun nonempty_string :: "any option \<Rightarrow> string option" where
  "nonempty_string (Some (AStr s)) = (if s \<noteq> '''' then Some s else None)"
| "nonempty_string v = None"

text \<open>
  \<open>uuid.New().String()\<close>: the sixteen random bytes are an input; \<open>String\<close> is the
  library's canonical form, the bytes in lower-case hexadecimal in groups of 4, 2, 2, 2
  and 6 bytes separated by hyphens.
\<close>

definition hex_digit :: "nat \<Rightarrow> char" where
  "hex_digit n = ''0123456789abcdef'' ! (n mod 16)"

definition hex_byte :: "8 word \<Rightarrow> string" where
  "hex_byte b = [hex_digit (unat b div 16), hex_digit (unat b mod 16)]"

definition hex_bytes :: "8 word list \<Rightarrow> string" where
  "hex_bytes bs = concat (map hex_byte bs)"

definition uuid_String :: "8 word list \<Rightarrow> string" where
  "uuid_String u =
     hex_bytes (take 4 u) @ ''-'' @ hex_bytes (take 2 (drop 4 u)) @ ''-'' @
     hex_bytes (take 2 (drop 6 u)) @ ''-'' @ hex_bytes (take 2 (drop 8 u)) @ ''-'' @
     hex_bytes (take 6 (drop 10 u))"

definition getRequestID :: "gin_Context \<Rightarrow> 8 word list \<Rightarrow> string \<times> gin_Context" where
  "getRequestID c fresh =
     (let reqID = GetHeader c ''X-Request-ID'' in
      if reqID \<noteq> '''' then (reqID, c)
      else (case nonempty_string (Keys c ''request_id'') of
              Some strID \<Rightarrow> (strID, c)
            | None \<Rightarrow>
                (case nonempty_string (Request_Context c ''request_id'') of
                   Some reqID \<Rightarrow> (reqID, c)
                 | None \<Rightarrow>
                     (let newID = uuid_String fresh in (newID, Set ''request_id'' (AStr newID) c)))))"

definition getTraceIDFromContext :: "gin_Context \<Rightarrow> string" where
  "getTraceIDFromContext c =
     (case nonempty_string (Keys c ''trace_id'') of
        Some strID \<Rightarrow> strID
      | None \<Rightarrow>
          (case nonempty_string (Request_Context c ''trace_id'') of
             Some traceID \<Rightarrow> traceID
           | None \<Rightarrow> GetHeader c ''X-Trace-ID''))"

record 'a Result =
  Code_field :: int
  Message :: string
  Data :: 'a
  RequestID :: string
  Time :: int
  TraceID :: string

text \<open>
  A helper writes one response, \<open>c.JSON(status, result)\<close>: the model returns the status,
  the result and the gin context after the call. \<open>now\<close> is \<open>time.Now().Unix()\<close>; \<open>msg\<close> is the
  variadic parameter.
\<close>

definition Success ::
  "gin_Context \<Rightarrow> 8 word list \<Rightarrow> int \<Rightarrow> 'a \<Rightarrow> string list \<Rightarrow> int \<times> 'a Result \<times> gin_Context" where
  "Success c fresh now data msg =
     (let message = (case msg of [] \<Rightarrow> ''success'' | m # _ \<Rightarrow> m);
          (requestID, c') = getRequestID c fresh
      in (200,
          \<lparr>Code_field = 0, Message = message, Data = data, RequestID = requestID,
           Time = now, TraceID = ''''\<rparr>,
          c'))"

definition SuccessNoData ::
  "gin_Context \<Rightarrow> 8 word list \<Rightarrow> int \<Rightarrow> string list \<Rightarrow> int \<times> unit Result \<times> gin_Context" where
  "SuccessNoData c fresh now msg =
     (let message = (case msg of [] \<Rightarrow> ''success'' | m # _ \<Rightarrow> m);
          (requestID, c') = getRequestID c fresh
      in (200,
          \<lparr>Code_field = 0, Message = message, Data = (), RequestID = requestID,
           Time = now, TraceID = ''''\<rparr>,
          c'))"

text \<open>
  \<open>Error\<close>. The error's own methods are parameters: \<open>codes\<close> gives the code of an errspec
  definition, \<open>http_status\<close> the optional \<open>HttpStatus()\<close> of an error and \<open>text_of\<close> its
  \<open>Error()\<close> string. A nil \<open>err\<close> panics at \<open>err.Error()\<close> before anything is written:
  \<open>None\<close>. The log call writes no response and leaves the gin context alone; it is not
  part of the model.
\<close>

definition Error ::
  "(errspec \<Rightarrow> int) \<Rightarrow> (error \<Rightarrow> int option) \<Rightarrow> (error \<Rightarrow> string) \<Rightarrow> gin_Context
     \<Rightarrow> 8 word list \<Rightarrow> int \<Rightarrow> error option \<Rightarrow> (int \<times> unit Result \<times> gin_Context) option" where
  "Error codes http_status text_of c fresh now err =
     (case err of
        None \<Rightarrow> None
      | Some e \<Rightarrow>
          (let message = text_of e;
               errorCode = (case Code codes e of Some n \<Rightarrow> n | None \<Rightarrow> codes ErrUnknown);
               httpStatus = (case http_status e of Some n \<Rightarrow> n | None \<Rightarrow> 500);
               (requestID, c') = getRequestID c fresh;
               traceID = getTraceIDFromContext c'
           in Some (httpStatus,
                    \<lparr>Code_field = errorCode, Message = message, Data = (),
                     RequestID = requestID, Time = now, TraceID = traceID\<rparr>,
                    c')))"

section \<open>How the store reads a statement\<close>

text \<open>
  In the store's statement a later \<open>Limit\<close> (or \<open>Offset\<close>) replaces an earlier one: the
  one in force is the last that was chained.
\<close>

fun limit_in_force :: "clause list \<Rightarrow> go_int option" where
  "limit_in_force [] = None"
| "limit_in_force (c # cs) =
     (case limit_in_force cs of
        Some n \<Rightarrow> Some n
      | None \<Rightarrow> (case c of CLimit n \<Rightarrow> Some n | _ \<Rightarrow> None))"

fun offset_in_force :: "clause list \<Rightarrow> go_int option" where
  "offset_in_force [] = None"
| "offset_in_force (c # cs) =
     (case offset_in_force cs of
        Some n \<Rightarrow> Some n
      | None \<Rightarrow> (case c of COffset n \<Rightarrow> Some n | _ \<Rightarrow> None))"



text \<open>
  A small table store for the examples: rows with an integer primary key and a name, and
  the relations the entity declares. A row is selected when every \<open>Where\<close> predicate holds
  of it (the table knows the predicates \<open>name = ?\<close> with one string argument and \<open>1 = 0\<close>,
  which holds of no row, and takes any other predicate to hold); \<open>First\<close> with an id
  selects by primary key as well; \<open>Find\<close> applies the offset and the limit in force; a
  statement that preloads a relation the entity does not declare is refused.
\<close>

type_synonym row = "int \<times> string"

fun holds :: "row \<Rightarrow> clause \<Rightarrow> bool" where
  "holds rw (CWhere cond args) =
     (if cond = ''name = ?'' then (case args of [AStr n] \<Rightarrow> snd rw = n | _ \<Rightarrow> False)
      else cond \<noteq> ''1 = 0'')"
| "holds rw c = True"

fun key_is :: "any option \<Rightarrow> row \<Rightarrow> bool" where
  "key_is None rw = True"
| "key_is (Some (AInt k)) rw = (fst rw = k)"
| "key_is (Some v) rw = False"

fun known_preload :: "string list \<Rightarrow> clause \<Rightarrow> bool" where
  "known_preload relations (CPreload name) = (name \<in> set relations)"
| "known_preload relations c = True"

definition selected :: "row list \<Rightarrow> gorm_DB \<Rightarrow> row list" where
  "selected rows q = filter (\<lambda>rw. list_all (holds rw) (Statement q)) rows"

definition paged :: "clause list \<Rightarrow> row list \<Rightarrow> row list" where
  "paged cs rows =
     (let rows1 = (case offset_in_force cs of
                     Some n \<Rightarrow> if 0 < sint n then drop (nat (sint n)) rows else rows
                   | None \<Rightarrow> rows)
      in case limit_in_force cs of
           Some n \<Rightarrow> if 0 \<le> sint n then take (nat (sint n)) rows1 else rows1
         | None \<Rightarrow> rows1)"

definition table_store :: "string list \<Rightarrow> row list \<Rightarrow> row store" where
  "table_store relations rows =
     \<lparr>exec_First = (\<lambda>q i.
        if \<not> list_all (known_preload relations) (Statement q)
        then Inl (gorm_Error ''unsupported relations'')
        else (case filter (key_is i) (selected rows q) of
                [] \<Rightarrow> Inl gorm_ErrRecordNotFound
              | rw # _ \<Rightarrow> Inr rw)),
      exec_Find = (\<lambda>q.
        if \<not> list_all (known_preload relations) (Statement q)
        then Inl (gorm_Error ''unsupported relations'')
        else Inr (paged (Statement q) (selected rows q))),
      exec_Count = (\<lambda>q.
        if \<not> list_all (known_preload relations) (Statement q)
        then Inl (gorm_Error ''unsupported relations'')
        else Inr (int (length (selected rows q))))\<rparr>"


text \<open>The handle, the repository and the rows of the examples.\<close>

definition db0 :: gorm_DB where
  "db0 = \<lparr>handle = Conn 0, Context = Map.empty, Statement = []\<rparr>"

definition repo0 :: GenericRepo where
  "repo0 = \<lparr>DB = db0, ErrorCode = 404\<rparr>"

definition rows0 :: "row list" where
  "rows0 = [(1, ''ann''), (2, ''bob''), (3, ''cy''), (4, ''dee'')]"

section \<open>Composition of the query options\<close>

lemma apply_preloads_foldl: "apply_preloads query ps = foldl (\<lambda>q p. Preload p q) query ps"
  by (induction ps arbitrary: query) simp_all

lemma options_Apply_foldl: "options_Apply query fs = foldl (\<lambda>q f. f q) query fs"
  by (induction fs arbitrary: query) simp_all

lemma Statement_apply_preloads:
  "Statement (apply_preloads query ps) = Statement query @ map CPreload ps"
  by (induction ps arbitrary: query) (simp_all add: Preload_def chain_def)

text \<open>
  C6. For a non-nil QueryOptions the components reach the query in a fixed order: every
  preload of Preloads, first to last; then every modifier of Opts, first to last; then
  the Condition with its Args, when the Condition is not empty. A nil QueryOptions leaves
  the query as it is, and so does the all-empty one. Get, List and Count hand the store
  the query that applyQueryOptions built.
\<close>

theorem applyQueryOptions_order:
  "applyQueryOptions query (Some opt) =
     (let q1 = foldl (\<lambda>q p. Preload p q) query (Preloads opt);
          q2 = foldl (\<lambda>q f. f q) q1 (Opts opt)
      in if Condition opt = '''' then q2 else Where (Condition opt) (Args opt) q2)
   \<and> Statement (foldl (\<lambda>q p. Preload p q) query (Preloads opt)) =
       Statement query @ map CPreload (Preloads opt)
   \<and> applyQueryOptions query None = query
   \<and> applyQueryOptions query (Some \<lparr>Condition = '''', Args = [], Opts = [], Preloads = []\<rparr>) =
       applyQueryOptions query None
   \<and> snd (GenericRepo_Get st r ctx (Some i) opts) =
       [FirstCall (applyQueryOptions (WithContext ctx (DB r)) opts) (Some i)]
   \<and> snd (GenericRepo_List st' r ctx page pageSize opts) =
       [FindCall (applyQueryOptions
          (Limit pageSize (Offset ((page - 1) * pageSize) (WithContext ctx (DB r)))) opts)]
   \<and> snd (GenericRepo_Count st'' r ctx opts) =
       [CountCall (applyQueryOptions (Model (WithContext ctx (DB r))) opts)]"
proof -
  have c1: "applyQueryOptions query (Some opt) =
     (let q1 = foldl (\<lambda>q p. Preload p q) query (Preloads opt);
          q2 = foldl (\<lambda>q f. f q) q1 (Opts opt)
      in if Condition opt = '''' then q2 else Where (Condition opt) (Args opt) q2)"
    by (cases "Preloads opt"; cases "Opts opt")
       (simp_all add: applyQueryOptions_def Let_def apply_preloads_foldl options_Apply_foldl)
  have c2: "Statement (foldl (\<lambda>q p. Preload p q) query (Preloads opt)) =
       Statement query @ map CPreload (Preloads opt)"
    using Statement_apply_preloads [of query "Preloads opt"]
    by (simp add: apply_preloads_foldl)
  have c3: "applyQueryOptions query None = query"
    by (simp add: applyQueryOptions_def)
  have c4: "applyQueryOptions query (Some \<lparr>Condition = '''', Args = [], Opts = [], Preloads = []\<rparr>) =
       applyQueryOptions query None"
    by (simp add: applyQueryOptions_def)
  have c5: "snd (GenericRepo_Get st r ctx (Some i) opts) =
       [FirstCall (applyQueryOptions (WithContext ctx (DB r)) opts) (Some i)]"
    by (simp add: GenericRepo_Get_def Let_def)
  have c6: "snd (GenericRepo_List st' r ctx page pageSize opts) =
       [FindCall (applyQueryOptions
          (Limit pageSize (Offset ((page - 1) * pageSize) (WithContext ctx (DB r)))) opts)]"
    by (simp add: GenericRepo_List_def Let_def)
  have c7: "snd (GenericRepo_Count st'' r ctx opts) =
       [CountCall (applyQueryOptions (Model (WithContext ctx (DB r))) opts)]"
    by (simp add: GenericRepo_Count_def Let_def)
  from c1 c2 c3 c4 c5 c6 c7 show ?thesis
    by (intro conjI)
qed

section \<open>Get\<close>

text \<open>
  C4. A call to Get with a nil id and with options that are nil or have an empty Condition
  returns the empty-query-parameter domain error, and no finisher runs: the list of the
  queries issued to the store is empty. (The chain methods that build the statement are
  still called before the test; they issue nothing.)
\<close>

theorem Get_empty_query_param:
  "opts = None \<or> (\<exists>opt. opts = Some opt \<and> Condition opt = '''') \<Longrightarrow>
     GenericRepo_Get st r ctx None opts = (Inl (New ErrQueryParamEmpty ctx), [])
     \<and> Code codes (New ErrQueryParamEmpty ctx) = Some (codes ErrQueryParamEmpty)"
  by (auto simp: GenericRepo_Get_def has_condition_def New_def Let_def)

theorem Get_empty_query_param_witness:
  "GenericRepo_Get (table_store [] rows0) repo0 Map.empty None
      (Some \<lparr>Condition = '''', Args = [AInt 1], Opts = [Limit 5], Preloads = [''Orders'']\<rparr>) =
     (Inl (DomainError ErrQueryParamEmpty Map.empty None), [])
   \<and> GenericRepo_Get (table_store [] rows0) repo0 Map.empty None None =
     (Inl (DomainError ErrQueryParamEmpty Map.empty None), [])"
  using Get_empty_query_param
          [of "Some \<lparr>Condition = '''', Args = [AInt 1], Opts = [Limit 5], Preloads = [''Orders'']\<rparr>"
              "table_store [] rows0" repo0 Map.empty]
        Get_empty_query_param [of None "table_store [] rows0" repo0 Map.empty]
  by (simp add: New_def)

text \<open>
  C2. When a call to Get reaches the store, with the query \<open>q\<close> and the id \<open>i\<close>: if the
  store reports the record-not-found sentinel, Get returns the domain error of the
  definition ErrRecordNotExist with the sentinel as its wrapped cause, and unwrapping
  gives the sentinel back; any other error of the store is returned as it is; a row is
  returned as it is.
\<close>

theorem Get_error_mapping:
  "GenericRepo_Get st r ctx ident opts = (res, [FirstCall q i]) \<Longrightarrow>
     (exec_First st q i = Inl gorm_ErrRecordNotFound \<longrightarrow>
        res = Inl (DomainError ErrRecordNotExist ctx (Some gorm_ErrRecordNotFound))
        \<and> res = Inl (Wrap (New ErrRecordNotExist ctx) gorm_ErrRecordNotFound)
        \<and> Unwrap (Wrap (New ErrRecordNotExist ctx) gorm_ErrRecordNotFound) =
            Some gorm_ErrRecordNotFound)
     \<and> (\<forall>err. exec_First st q i = Inl err \<and> err \<noteq> gorm_ErrRecordNotFound \<longrightarrow> res = Inl err)
     \<and> (\<forall>entity. exec_First st q i = Inr entity \<longrightarrow> res = Inr entity)"
  by (auto simp: GenericRepo_Get_def Get_result_def New_def Let_def split: if_splits)

theorem Get_error_mapping_witness:
  "GenericRepo_Get (table_store [] rows0) repo0 Map.empty (Some (AInt 9)) None =
     (Inl (DomainError ErrRecordNotExist Map.empty (Some gorm_ErrRecordNotFound)),
      [FirstCall db0 (Some (AInt 9))])
   \<and> exec_First (table_store [] rows0) db0 (Some (AInt 9)) = Inl gorm_ErrRecordNotFound
   \<and> Unwrap (DomainError ErrRecordNotExist Map.empty (Some gorm_ErrRecordNotFound)) =
       Some gorm_ErrRecordNotFound
   \<and> fst (GenericRepo_Get (table_store [] rows0) repo0 Map.empty (Some (AInt 1))
        (Some \<lparr>Condition = '''', Args = [], Opts = [], Preloads = [''Orders'']\<rparr>)) =
       Inl (gorm_Error ''unsupported relations'')
   \<and> fst (GenericRepo_Get (table_store [] rows0) repo0 Map.empty (Some (AInt 1)) None) =
       Inr (1, ''ann'')"
proof -
  let ?st = "table_store [] rows0"
  let ?q = "db0\<lparr>Statement := [CPreload ''Orders'']\<rparr>"
  have run: "GenericRepo_Get ?st repo0 Map.empty (Some (AInt 9)) None =
     (Inl (DomainError ErrRecordNotExist Map.empty (Some gorm_ErrRecordNotFound)),
      [FirstCall db0 (Some (AInt 9))])"
    by (simp add: GenericRepo_Get_def Get_result_def New_def Let_def applyQueryOptions_def
        WithContext_def repo0_def db0_def table_store_def selected_def rows0_def)
  have nf: "exec_First ?st db0 (Some (AInt 9)) = Inl gorm_ErrRecordNotFound"
    by (simp add: table_store_def selected_def rows0_def db0_def)
  have run2: "GenericRepo_Get ?st repo0 Map.empty (Some (AInt 1))
        (Some \<lparr>Condition = '''', Args = [], Opts = [], Preloads = [''Orders'']\<rparr>) =
     (Inl (gorm_Error ''unsupported relations''), [FirstCall ?q (Some (AInt 1))])"
    by (simp add: GenericRepo_Get_def Get_result_def New_def Let_def applyQueryOptions_def
        WithContext_def Preload_def chain_def repo0_def db0_def table_store_def)
  have other: "exec_First ?st ?q (Some (AInt 1)) = Inl (gorm_Error ''unsupported relations'')"
    by (simp add: table_store_def db0_def)
  have run3: "GenericRepo_Get ?st repo0 Map.empty (Some (AInt 1)) None =
     (Inr (1, ''ann''), [FirstCall db0 (Some (AInt 1))])"
    by (simp add: GenericRepo_Get_def Get_result_def New_def Let_def applyQueryOptions_def
        WithContext_def repo0_def db0_def table_store_def selected_def rows0_def)
  have found: "exec_First ?st db0 (Some (AInt 1)) = Inr (1, ''ann'')"
    by (simp add: table_store_def selected_def rows0_def db0_def)
  have unwrap: "Unwrap (Wrap (New ErrRecordNotExist Map.empty) gorm_ErrRecordNotFound) =
      Some gorm_ErrRecordNotFound"
    using Get_error_mapping [OF run] nf by blast
  have c1: "Unwrap (DomainError ErrRecordNotExist Map.empty (Some gorm_ErrRecordNotFound)) =
      Some gorm_ErrRecordNotFound"
    using unwrap by (simp add: New_def)
  have c2: "fst (GenericRepo_Get ?st repo0 Map.empty (Some (AInt 1))
        (Some \<lparr>Condition = '''', Args = [], Opts = [], Preloads = [''Orders'']\<rparr>)) =
       Inl (gorm_Error ''unsupported relations'')"
    using Get_error_mapping [OF run2] other run2 by simp
  have c3: "fst (GenericRepo_Get ?st repo0 Map.empty (Some (AInt 1)) None) = Inr (1, ''ann'')"
    using run3 by simp
  from run nf c1 c2 c3 show ?thesis
    by (intro conjI)
qed

text \<open>
  C9, evaluated: on zero matching rows Get returns the domain error of the fixed definition
  ErrRecordNotExist, so its code is that definition's code whatever the repository's
  ErrorCode is; with an ErrorCode one above that code the two differ.
\<close>

theorem Get_not_found_code_fixed:
  "fst (GenericRepo_Get (table_store [] rows0) \<lparr>DB = db0, ErrorCode = c\<rparr> Map.empty
          (Some (AInt 9)) None) =
     Inl (DomainError ErrRecordNotExist Map.empty (Some gorm_ErrRecordNotFound))
   \<and> Code codes (DomainError ErrRecordNotExist Map.empty (Some gorm_ErrRecordNotFound)) =
       Some (codes ErrRecordNotExist)
   \<and> Some (codes ErrRecordNotExist) \<noteq>
       Some (ErrorCode \<lparr>DB = db0, ErrorCode = codes ErrRecordNotExist + 1\<rparr>)"
  by (simp add: GenericRepo_Get_def Get_result_def New_def Let_def applyQueryOptions_def
      WithContext_def db0_def table_store_def selected_def rows0_def)

section \<open>WithTx\<close>

text \<open>
  C7. For a repository \<open>r\<close> of the heap and a transactional handle \<open>tx\<close>, WithTx(tx) returns a
  newly allocated repository, different from \<open>r\<close>, whose handle is \<open>tx\<close> and whose error
  code is \<open>r\<close>'s; \<open>r\<close> and every other repository of the heap are as they were before the
  call, so \<open>r\<close> still has its original handle and code.
\<close>

theorem WithTx_new_repository:
  "r < length h \<Longrightarrow>
     (\<exists>r' h'. GenericRepo_WithTx h r tx = Some (r', h')
        \<and> r' \<noteq> r
        \<and> DB (h' ! r') = tx
        \<and> ErrorCode (h' ! r') = ErrorCode (h ! r)
        \<and> h' ! r = h ! r
        \<and> DB (h' ! r) = DB (h ! r)
        \<and> ErrorCode (h' ! r) = ErrorCode (h ! r)
        \<and> take (length h) h' = h)"
  by (simp add: GenericRepo_WithTx_def nth_append)

theorem WithTx_new_repository_witness:
  "GenericRepo_WithTx [repo0] 0 (Begin db0) =
     Some (1, [repo0, \<lparr>DB = Begin db0, ErrorCode = 404\<rparr>])
   \<and> (0::nat) < length [repo0]"
  using WithTx_new_repository [of 0 "[repo0]" "Begin db0"]
  by (simp add: GenericRepo_WithTx_def repo0_def)

section \<open>Transaction\<close>

text \<open>
  C8. Transaction(fn) runs \<open>fn\<close> on a transactional handle made from the repository's
  handle. When \<open>fn\<close> returns an error the transaction is rolled back, the database is as
  it was before the call (none of the writes of \<open>fn\<close> is visible) and that very error is
  returned. When \<open>fn\<close> returns nil the transaction is committed, and with a successful
  commit the writes of \<open>fn\<close> are the new state and nil is returned. A commit is attempted
  exactly when \<open>fn\<close> returns nil.
\<close>

theorem Transaction_commit_iff_nil:
  "fn (Begin (WithContext ctx (DB r))) d = (res, d') \<Longrightarrow>
     is_Tx (handle (Begin (WithContext ctx (DB r))))
     \<and> (\<forall>err. res = Some err \<longrightarrow>
           GenericRepo_Transaction commit r ctx fn d = (Some err, d, [EvBegin, EvRollback]))
     \<and> (res = None \<and> commit d' = None \<longrightarrow>
           GenericRepo_Transaction commit r ctx fn d = (None, d', [EvBegin, EvCommit]))
     \<and> (EvCommit \<in> set (snd (snd (GenericRepo_Transaction commit r ctx fn d))) \<longleftrightarrow> res = None)
     \<and> (EvRollback \<in> set (snd (snd (GenericRepo_Transaction commit r ctx fn d))) \<longleftrightarrow> res \<noteq> None)"
proof -
  assume run: "fn (Begin (WithContext ctx (DB r))) d = (res, d')"
  have tx: "is_Tx (handle (Begin (WithContext ctx (DB r))))"
    by (cases "handle (DB r)") (simp_all add: Begin_def WithContext_def)
  show ?thesis
  proof (cases res)
    case None
    with run tx show ?thesis
      by (cases "commit d'")
         (simp_all add: GenericRepo_Transaction_def gorm_Transaction_def Let_def)
  next
    case (Some err)
    with run tx show ?thesis
      by (simp add: GenericRepo_Transaction_def gorm_Transaction_def Let_def)
  qed
qed

theorem Transaction_commit_iff_nil_witness:
  "GenericRepo_Transaction (\<lambda>d. None) repo0 Map.empty
      (\<lambda>tx d. (Some (gorm_Error ''boom''), d @ [(5, ''eve'')])) rows0 =
     (Some (gorm_Error ''boom''), rows0, [EvBegin, EvRollback])
   \<and> GenericRepo_Transaction (\<lambda>d. None) repo0 Map.empty
      (\<lambda>tx d. (None, d @ [(5, ''eve'')])) rows0 =
     (None, rows0 @ [(5, ''eve'')], [EvBegin, EvCommit])"
  using Transaction_commit_iff_nil
          [of "\<lambda>tx d. (Some (gorm_Error ''boom''), d @ [(5, ''eve'')])" Map.empty repo0 rows0
              "Some (gorm_Error ''boom'')" "rows0 @ [(5, ''eve'')]" "\<lambda>d. None"]
        Transaction_commit_iff_nil
          [of "\<lambda>tx d. (None, d @ [(5, ''eve'')])" Map.empty repo0 rows0
              None "rows0 @ [(5, ''eve'')]" "\<lambda>d. None"]
  by simp

section \<open>The request id of a response\<close>

lemma uuid_String_nonempty: "uuid_String u \<noteq> ''''"
  by (simp add: uuid_String_def)

lemma nonempty_string_Some: "nonempty_string v = Some s \<Longrightarrow> s \<noteq> ''''"
  by (cases v rule: nonempty_string.cases) (simp_all split: if_splits)

lemma getRequestID_nonempty: "fst (getRequestID c fresh) \<noteq> ''''"
  by (auto simp: getRequestID_def Let_def uuid_String_nonempty
      dest: nonempty_string_Some split: option.splits)

text \<open>
  C10. Every response written by Success, SuccessNoData or Error carries a non-empty
  RequestID. The lookup never returns the empty string: it answers the X-Request-ID
  header when that is not empty; otherwise the non-empty string under the gin key
  request_id; otherwise the non-empty string under request_id in the request's context;
  otherwise the string of a fresh UUID, which it also stores under the gin key.
\<close>

theorem response_RequestID_nonempty:
  "RequestID (fst (snd (Success c fresh now data msg))) \<noteq> ''''
   \<and> RequestID (fst (snd (SuccessNoData c fresh now msg))) \<noteq> ''''
   \<and> (\<exists>status res c'. Error codes http_status text_of c fresh now (Some e) = Some (status, res, c')
         \<and> RequestID res \<noteq> '''')
   \<and> fst (getRequestID c fresh) \<noteq> ''''
   \<and> (GetHeader c ''X-Request-ID'' \<noteq> '''' \<longrightarrow>
         getRequestID c fresh = (GetHeader c ''X-Request-ID'', c))
   \<and> (GetHeader c ''X-Request-ID'' = '''' \<and> nonempty_string (Keys c ''request_id'') = Some s \<longrightarrow>
         getRequestID c fresh = (s, c))
   \<and> (GetHeader c ''X-Request-ID'' = '''' \<and> nonempty_string (Keys c ''request_id'') = None
         \<and> nonempty_string (Request_Context c ''request_id'') = Some s \<longrightarrow>
         getRequestID c fresh = (s, c))
   \<and> (GetHeader c ''X-Request-ID'' = '''' \<and> nonempty_string (Keys c ''request_id'') = None
         \<and> nonempty_string (Request_Context c ''request_id'') = None \<longrightarrow>
         getRequestID c fresh = (uuid_String fresh, Set ''request_id'' (AStr (uuid_String fresh)) c)
         \<and> Keys (snd (getRequestID c fresh)) ''request_id'' = Some (AStr (uuid_String fresh)))"
proof -
  have a: "RequestID (fst (snd (Success c fresh now data msg))) \<noteq> ''''"
    using getRequestID_nonempty [of c fresh]
    by (cases "getRequestID c fresh") (simp add: Success_def Let_def)
  have b: "RequestID (fst (snd (SuccessNoData c fresh now msg))) \<noteq> ''''"
    using getRequestID_nonempty [of c fresh]
    by (cases "getRequestID c fresh") (simp add: SuccessNoData_def Let_def)
  have d: "\<exists>status res c'. Error codes http_status text_of c fresh now (Some e) = Some (status, res, c')
         \<and> RequestID res \<noteq> ''''"
    using getRequestID_nonempty [of c fresh]
    by (cases "getRequestID c fresh") (simp add: Error_def Let_def)
  have g: "fst (getRequestID c fresh) \<noteq> ''''"
    by (rule getRequestID_nonempty)
  show ?thesis
    using a b d g by (simp add: getRequestID_def Let_def Set_def)
qed

theorem response_RequestID_nonempty_witness:
  "getRequestID \<lparr>Header = [''X-Request-ID'' \<mapsto> ''abc''], Keys = Map.empty,
       Request_Context = Map.empty\<rparr> [] =
     (''abc'', \<lparr>Header = [''X-Request-ID'' \<mapsto> ''abc''], Keys = Map.empty,
       Request_Context = Map.empty\<rparr>)
   \<and> getRequestID \<lparr>Header = Map.empty, Keys = [''request_id'' \<mapsto> AStr ''k1''],
       Request_Context = [''request_id'' \<mapsto> AStr ''r1'']\<rparr> [] =
     (''k1'', \<lparr>Header = Map.empty, Keys = [''request_id'' \<mapsto> AStr ''k1''],
       Request_Context = [''request_id'' \<mapsto> AStr ''r1'']\<rparr>)
   \<and> getRequestID \<lparr>Header = Map.empty, Keys = [''request_id'' \<mapsto> AInt 7],
       Request_Context = [''request_id'' \<mapsto> AStr ''r1'']\<rparr> [] =
     (''r1'', \<lparr>Header = Map.empty, Keys = [''request_id'' \<mapsto> AInt 7],
       Request_Context = [''request_id'' \<mapsto> AStr ''r1'']\<rparr>)
   \<and> fst (getRequestID \<lparr>Header = Map.empty, Keys = Map.empty, Request_Context = Map.empty\<rparr> []) =
       ''----''
   \<and> RequestID (fst (snd (SuccessNoData
         \<lparr>Header = Map.empty, Keys = Map.empty, Request_Context = Map.empty\<rparr> [] 0 [])))
       \<noteq> ''''"
proof -
  let ?c1 = "\<lparr>Header = [''X-Request-ID'' \<mapsto> ''abc''], Keys = Map.empty,
       Request_Context = Map.empty\<rparr>"
  let ?c2 = "\<lparr>Header = Map.empty, Keys = [''request_id'' \<mapsto> AStr ''k1''],
       Request_Context = [''request_id'' \<mapsto> AStr ''r1'']\<rparr>"
  let ?c3 = "\<lparr>Header = Map.empty, Keys = [''request_id'' \<mapsto> AInt 7],
       Request_Context = [''request_id'' \<mapsto> AStr ''r1'']\<rparr>"
  let ?c4 = "\<lparr>Header = Map.empty, Keys = Map.empty, Request_Context = Map.empty\<rparr>"
  have h1: "getRequestID ?c1 [] = (''abc'', ?c1)"
    using response_RequestID_nonempty
      [where c = ?c1 and fresh = "[]" and data = "()" and s = "''''"]
    by (simp add: GetHeader_def)
  have h2: "getRequestID ?c2 [] = (''k1'', ?c2)"
    using response_RequestID_nonempty
      [where c = ?c2 and fresh = "[]" and data = "()" and s = "''k1''"]
    by (simp add: GetHeader_def)
  have h3: "getRequestID ?c3 [] = (''r1'', ?c3)"
    using response_RequestID_nonempty
      [where c = ?c3 and fresh = "[]" and data = "()" and s = "''r1''"]
    by (simp add: GetHeader_def)
  have h4: "fst (getRequestID ?c4 []) = ''----''
      \<and> RequestID (fst (snd (SuccessNoData ?c4 [] 0 []))) \<noteq> ''''"
    using response_RequestID_nonempty
      [where c = ?c4 and fresh = "[]" and data = "()" and s = "''''"]
    by (simp add: GetHeader_def uuid_String_def hex_bytes_def)
  from h1 h2 h3 h4 show ?thesis by blast
qed

section \<open>Get by id\<close>

text \<open>
  C1, as stated, fails: with the id 1 (the row of ann is in the table) and the Condition
  \<open>name = ?\<close> bound to bob, Get hands the store a statement that carries the Where clause,
  and the row is not found; with an empty Condition and the same id it is found.
\<close>

theorem Get_by_id_condition_counterexample:
  "GenericRepo_Get (table_store [] rows0) repo0 Map.empty (Some (AInt 1))
      (Some \<lparr>Condition = ''name = ?'', Args = [AStr ''bob''], Opts = [], Preloads = []\<rparr>) =
     (Inl (DomainError ErrRecordNotExist Map.empty (Some gorm_ErrRecordNotFound)),
      [FirstCall (db0\<lparr>Statement := [CWhere ''name = ?'' [AStr ''bob'']]\<rparr>) (Some (AInt 1))])
   \<and> GenericRepo_Get (table_store [] rows0) repo0 Map.empty (Some (AInt 1))
      (Some \<lparr>Condition = '''', Args = [], Opts = [], Preloads = []\<rparr>) =
     (Inr (1, ''ann''), [FirstCall db0 (Some (AInt 1))])"
  by (simp add: GenericRepo_Get_def Get_result_def New_def Let_def applyQueryOptions_def
      WithContext_def Where_def chain_def repo0_def db0_def table_store_def selected_def
      rows0_def)

text \<open>
  C1, amended. With a non-nil id Get runs First with that id on the query to which all of
  the options have been applied: the preloads and the modifiers, and on top of them the
  Condition with its Args as a Where clause whenever the Condition is not empty. With an
  empty Condition the Args play no part: the call is the same as with empty Args.
\<close>

theorem Get_by_id_applies_condition:
  "GenericRepo_Get st r ctx (Some i) (Some opt) =
     (let q0 = applyQueryOptions (WithContext ctx (DB r)) (Some (opt\<lparr>Condition := '''', Args := []\<rparr>));
          q = (if Condition opt = '''' then q0 else Where (Condition opt) (Args opt) q0)
      in (Get_result ctx (exec_First st q (Some i)), [FirstCall q (Some i)]))
   \<and> GenericRepo_Get st r ctx (Some i) (Some (opt\<lparr>Condition := ''''\<rparr>)) =
       GenericRepo_Get st r ctx (Some i) (Some (opt\<lparr>Condition := '''', Args := []\<rparr>))"
  by (simp add: GenericRepo_Get_def applyQueryOptions_def Let_def)

section \<open>Count\<close>









section \<open>List\<close>

lemma limit_in_force_snoc:
  "limit_in_force (cs @ [c]) = (case c of CLimit n \<Rightarrow> Some n | _ \<Rightarrow> limit_in_force cs)"
  by (induction cs) (simp_all split: clause.splits option.splits)

lemma limit_in_force_apply_preloads:
  "limit_in_force (Statement (apply_preloads q ps)) = limit_in_force (Statement q)"
  by (induction ps arbitrary: q) (simp_all add: Preload_def chain_def limit_in_force_snoc)

lemma limit_in_force_options_Apply:
  "(\<And>f q. f \<in> set fs \<Longrightarrow> limit_in_force (Statement (f q)) = limit_in_force (Statement q)) \<Longrightarrow>
     limit_in_force (Statement (options_Apply q fs)) = limit_in_force (Statement q)"
  by (induction fs arbitrary: q) simp_all

lemma limit_in_force_applyQueryOptions:
  assumes "\<And>opt f q. opts = Some opt \<Longrightarrow> f \<in> set (Opts opt) \<Longrightarrow>
             limit_in_force (Statement (f q)) = limit_in_force (Statement q)"
  shows "limit_in_force (Statement (applyQueryOptions q opts)) = limit_in_force (Statement q)"
proof (cases opts)
  case None
  then show ?thesis by (simp add: applyQueryOptions_def)
next
  case (Some opt)
  have mods: "limit_in_force (Statement (options_Apply q' (Opts opt))) = limit_in_force (Statement q')"
    for q'
    using assms [OF Some] by (intro limit_in_force_options_Apply) simp
  show ?thesis
    using Some
    by (simp add: applyQueryOptions_def Let_def mods limit_in_force_apply_preloads
        Where_def chain_def limit_in_force_snoc)
qed

lemma go_int_offset:
  assumes "1 \<le> sint (page :: go_int)" and "1 \<le> sint (pageSize :: go_int)"
    and "(sint page - 1) * sint pageSize < 2 ^ 63"
  shows "sint ((page - 1) * pageSize) = (sint page - 1) * sint pageSize"
proof -
  have "sint page < 2 ^ 63"
    using sint_lt [of page] by simp
  then have pred: "sint (page - 1) = sint page - 1"
    using assms(1) by (simp add: sint_word_diff signed_take_bit_int_eq_self)
  have "0 \<le> (sint page - 1) * sint pageSize"
    using assms(1,2) by simp
  then show ?thesis
    using pred assms(3) by (simp add: sint_word_mult signed_take_bit_int_eq_self)
qed

lemma paged_length:
  "limit_in_force cs = Some n \<Longrightarrow> 0 \<le> sint n \<Longrightarrow> length (paged cs rows) \<le> nat (sint n)"
  by (simp add: paged_def Let_def)

text \<open>
  C5, as stated, fails: the paging is chained before the options, not after them. With
  page 1, pageSize 2 and the row-limiting modifier Limit 3 in Opts the statement handed to
  the store reads Offset 0, Limit 2, Limit 3, the limit in force is the modifier's, and
  three rows come back.
\<close>

theorem List_paging_order_counterexample:
  "GenericRepo_List (table_store [] rows0) repo0 Map.empty 1 2
      (Some \<lparr>Condition = '''', Args = [], Opts = [Limit 3], Preloads = []\<rparr>) =
     (Inr [(1, ''ann''), (2, ''bob''), (3, ''cy'')],
      [FindCall (db0\<lparr>Statement := [COffset 0, CLimit 2, CLimit 3]\<rparr>)])
   \<and> \<not> length [(1, ''ann''), (2, ''bob''), (3 :: int, ''cy'')] \<le> 2"
  by (simp add: GenericRepo_List_def Let_def applyQueryOptions_def WithContext_def Limit_def
      Offset_def chain_def repo0_def db0_def table_store_def selected_def paged_def rows0_def)

text \<open>
  C5, amended. List chains Offset((page-1)*pageSize) and Limit(pageSize) to the query
  first and applies the composition of the options (preloads, modifiers, condition) on
  top of them; it returns what the store finds for that statement. For page and pageSize
  from 1 on whose product stays inside Go's int the offset is (page-1)*pageSize. When the
  store honours the limit in force and no modifier in Opts changes the limit in force,
  at most pageSize rows are returned.
\<close>

theorem List_pages_then_applies_options:
  "GenericRepo_List st r ctx page pageSize opts =
     (let q = applyQueryOptions
                (Limit pageSize (Offset ((page - 1) * pageSize) (WithContext ctx (DB r)))) opts
      in (exec_Find st q, [FindCall q]))
   \<and> (1 \<le> sint page \<and> 1 \<le> sint pageSize \<and> (sint page - 1) * sint pageSize < 2 ^ 63 \<longrightarrow>
        sint ((page - 1) * pageSize) = (sint page - 1) * sint pageSize)
   \<and> ((\<forall>q rows n. exec_Find st q = Inr rows \<and> limit_in_force (Statement q) = Some n \<and> 0 \<le> sint n
                   \<longrightarrow> length rows \<le> nat (sint n))
        \<and> (\<forall>opt f q. opts = Some opt \<and> f \<in> set (Opts opt)
                   \<longrightarrow> limit_in_force (Statement (f q)) = limit_in_force (Statement q))
        \<and> 1 \<le> sint pageSize \<longrightarrow>
        (\<forall>rows. fst (GenericRepo_List st r ctx page pageSize opts) = Inr rows
                   \<longrightarrow> length rows \<le> nat (sint pageSize)))"
proof -
  let ?base = "Limit pageSize (Offset ((page - 1) * pageSize) (WithContext ctx (DB r)))"
  let ?q = "applyQueryOptions ?base opts"
  have run: "GenericRepo_List st r ctx page pageSize opts = (exec_Find st ?q, [FindCall ?q])"
    by (cases "exec_Find st ?q") (simp_all add: GenericRepo_List_def Let_def)
  have bound: "length rows \<le> nat (sint pageSize)"
    if honours: "\<forall>q rows n. exec_Find st q = Inr rows \<and> limit_in_force (Statement q) = Some n
                   \<and> 0 \<le> sint n \<longrightarrow> length rows \<le> nat (sint n)"
      and keep: "\<forall>opt f q. opts = Some opt \<and> f \<in> set (Opts opt)
                   \<longrightarrow> limit_in_force (Statement (f q)) = limit_in_force (Statement q)"
      and size: "1 \<le> sint pageSize"
      and res: "fst (GenericRepo_List st r ctx page pageSize opts) = Inr rows"
    for rows
  proof -
    have "limit_in_force (Statement ?q) = limit_in_force (Statement ?base)"
      using keep by (intro limit_in_force_applyQueryOptions) blast
    then have lim: "limit_in_force (Statement ?q) = Some pageSize"
      by (simp add: Limit_def chain_def limit_in_force_snoc)
    have "exec_Find st ?q = Inr rows"
      using res run by simp
    with honours lim size show ?thesis
      by (metis order_trans zero_le_one)
  qed
  have c1: "GenericRepo_List st r ctx page pageSize opts =
     (let q = applyQueryOptions
                (Limit pageSize (Offset ((page - 1) * pageSize) (WithContext ctx (DB r)))) opts
      in (exec_Find st q, [FindCall q]))"
    using run by (simp add: Let_def)
  have c2: "1 \<le> sint page \<and> 1 \<le> sint pageSize \<and> (sint page - 1) * sint pageSize < 2 ^ 63 \<longrightarrow>
        sint ((page - 1) * pageSize) = (sint page - 1) * sint pageSize"
    using go_int_offset [of page pageSize] by blast
  have c3: "(\<forall>q rows n. exec_Find st q = Inr rows \<and> limit_in_force (Statement q) = Some n \<and> 0 \<le> sint n
                   \<longrightarrow> length rows \<le> nat (sint n))
        \<and> (\<forall>opt f q. opts = Some opt \<and> f \<in> set (Opts opt)
                   \<longrightarrow> limit_in_force (Statement (f q)) = limit_in_force (Statement q))
        \<and> 1 \<le> sint pageSize \<longrightarrow>
        (\<forall>rows. fst (GenericRepo_List st r ctx page pageSize opts) = Inr rows
                   \<longrightarrow> length rows \<le> nat (sint pageSize))"
    using bound by blast
  from c1 c2 c3 show ?thesis
    by (intro conjI)
qed

theorem List_pages_then_applies_options_witness:
  "GenericRepo_List (table_store [''Orders''] rows0) repo0 Map.empty 2 2
      (Some \<lparr>Condition = '''', Args = [], Opts = [Preload ''Orders''], Preloads = []\<rparr>) =
     (Inr [(3, ''cy''), (4, ''dee'')],
      [FindCall (db0\<lparr>Statement := [COffset 2, CLimit 2, CPreload ''Orders'']\<rparr>)])
   \<and> length [(3, ''cy''), (4 :: int, ''dee'')] \<le> nat (sint (2 :: go_int))
   \<and> sint (((2 :: go_int) - 1) * 2) = (sint (2 :: go_int) - 1) * sint (2 :: go_int)"
proof -
  let ?st = "table_store [''Orders''] rows0"
  let ?opts = "Some \<lparr>Condition = '''', Args = [], Opts = [Preload ''Orders''], Preloads = []\<rparr>"
  have honours: "\<forall>q rows n. exec_Find ?st q = Inr rows \<and> limit_in_force (Statement q) = Some n
                   \<and> 0 \<le> sint n \<longrightarrow> length rows \<le> nat (sint n)"
    by (auto simp: table_store_def paged_length split: if_splits)
  have keep: "\<forall>opt f q. ?opts = Some opt \<and> f \<in> set (Opts opt)
                   \<longrightarrow> limit_in_force (Statement (f q)) = limit_in_force (Statement q)"
    by (auto simp: Preload_def chain_def limit_in_force_snoc)
  have size: "1 \<le> sint (2 :: go_int)"
    by simp
  have run: "GenericRepo_List ?st repo0 Map.empty 2 2 ?opts =
     (Inr [(3, ''cy''), (4, ''dee'')],
      [FindCall (db0\<lparr>Statement := [COffset 2, CLimit 2, CPreload ''Orders'']\<rparr>)])"
    by (simp add: GenericRepo_List_def Let_def applyQueryOptions_def WithContext_def Limit_def
        Offset_def Preload_def chain_def repo0_def db0_def table_store_def selected_def
        paged_def rows0_def)
  from List_pages_then_applies_options [of ?st repo0 Map.empty 2 2 ?opts] honours keep size run
  show ?thesis by simp
qed

end
